theory Spec2Isabelle
  imports Complex_Main
begin

section \<open>Python floats\<close>

text \<open>
  The decision pipeline of the repository (strategy/moving_average.py, risk/risk_engine.py,
  execution/executor.py, main.py) computes on binary64 floats.  A float is a real number,
  an infinity or not-a-number; every binary64 value is one of these, the two zeros being
  the one value \<open>Fin 0\<close>.  Comparisons, \<open>abs\<close> and \<open>min\<close> do not round and are
  defined on these values.  Every comparison with \<open>NaN\<close> is false.
\<close>

datatype pyfloat = Fin real | PInf | NInf | NaN

datatype error = ValueError string | IndexError string | ZeroDivisionError string

fun flt :: "pyfloat \<Rightarrow> pyfloat \<Rightarrow> bool" where
  "flt (Fin a) (Fin b) = (a < b)"
| "flt (Fin a) PInf = True"
| "flt NInf (Fin b) = True"
| "flt NInf PInf = True"
| "flt _ _ = False"

fun fle :: "pyfloat \<Rightarrow> pyfloat \<Rightarrow> bool" where
  "fle (Fin a) (Fin b) = (a \<le> b)"
| "fle NaN _ = False"
| "fle _ NaN = False"
| "fle NInf _ = True"
| "fle _ PInf = True"
| "fle _ _ = False"

definition fgt :: "pyfloat \<Rightarrow> pyfloat \<Rightarrow> bool" where
  "fgt a b = flt b a"

definition fge :: "pyfloat \<Rightarrow> pyfloat \<Rightarrow> bool" where
  "fge a b = fle b a"

fun fabs :: "pyfloat \<Rightarrow> pyfloat" where
  "fabs (Fin a) = Fin \<bar>a\<bar>"
| "fabs PInf = PInf"
| "fabs NInf = PInf"
| "fabs NaN = NaN"

text \<open>\<open>bool(x)\<close> of a float: only zero is falsy.\<close>

fun truthy :: "pyfloat \<Rightarrow> bool" where
  "truthy (Fin a) = (a \<noteq> 0)"
| "truthy _ = True"

text \<open>
  The builtin \<open>min(a, b)\<close> returns \<open>b\<close> when \<open>b < a\<close> and \<open>a\<close> otherwise.
\<close>

definition py_min :: "pyfloat \<Rightarrow> pyfloat \<Rightarrow> pyfloat" where
  "py_min a b = (if flt b a then b else a)"

text \<open>
  The operations that round are not fixed by the program but by the platform: the four
  binary64 operations, the builtin \<open>round(x, n)\<close> on a Python float, \<open>round(x, n)\<close>
  on a numpy scalar, and the value pandas computes for a full rolling window.  They are
  parameters of the model, and a statement about the program holds for every choice of
  them.  \<open>roll_mean w xs\<close> is the entry of \<open>Series.rolling(window=w).mean()\<close> at the
  last position of the column \<open>xs\<close>; pandas computes it from a running sum over the
  whole column.  The program applies these operations to binary64 values only; on other
  reals an operation can be read as rounding its operands first.
\<close>

record arith =
  fadd :: "pyfloat \<Rightarrow> pyfloat \<Rightarrow> pyfloat"
  fsub :: "pyfloat \<Rightarrow> pyfloat \<Rightarrow> pyfloat"
  fmul :: "pyfloat \<Rightarrow> pyfloat \<Rightarrow> pyfloat"
  fdiv :: "pyfloat \<Rightarrow> pyfloat \<Rightarrow> pyfloat"
  py_round :: "pyfloat \<Rightarrow> nat \<Rightarrow> pyfloat"
  np_round :: "pyfloat \<Rightarrow> nat \<Rightarrow> pyfloat"
  roll_mean :: "nat \<Rightarrow> pyfloat list \<Rightarrow> pyfloat"

text \<open>
  Python's \<open>a / b\<close> on floats raises \<open>ZeroDivisionError\<close> for a zero divisor, whatever
  the dividend.  The values read out of a pandas frame are numpy scalars, whose division
  never raises: they divide with \<open>fdiv\<close>.
\<close>

definition py_div :: "arith \<Rightarrow> pyfloat \<Rightarrow> pyfloat \<Rightarrow> error + pyfloat" where
  "py_div ar a b =
     (if b = Fin 0 then Inl (ZeroDivisionError ''float division by zero'')
      else Inr (fdiv ar a b))"

text \<open>
  The literal \<open>0.99\<close> denotes the binary64 number nearest to it; the other literals of
  the pipeline (\<open>0\<close>, \<open>0.5\<close>, \<open>10\<close>) are binary64 numbers themselves.
\<close>

definition lit_0_99 :: pyfloat where
  "lit_0_99 = Fin (4458563631096791 / 4503599627370496)"

section \<open>Settings (config/settings.py)\<close>

text \<open>The fields of the settings object that one cycle reads.\<close>

record Settings =
  alpaca_api_key :: string
  alpaca_secret_key :: string
  default_symbol :: string
  short_window :: int
  long_window :: int
  max_capital_per_position :: pyfloat
  max_trades_per_day :: int
  stop_loss_pct :: pyfloat
  max_daily_loss_pct :: pyfloat

section \<open>Signal generator (strategy/moving\_average.py)\<close>

record StrategySignal =
  symbol :: string
  signal :: string
  confidence :: pyfloat
  timestamp :: string

record MovingAverageCrossoverStrategy =
  short_window :: int
  long_window :: int

text \<open>
  The constructor: \<open>__init__(self, short_window, long_window)\<close>.  The configuration error
  of the specification is the \<open>ValueError\<close> raised here.
\<close>

definition config_error :: error where
  "config_error = ValueError ''short_window must be < long_window''"

definition strategy_init :: "int \<Rightarrow> int \<Rightarrow> error + MovingAverageCrossoverStrategy" where
  "strategy_init short long =
     (if short \<ge> long then Inl config_error
      else Inr \<lparr>short_window = short, long_window = long\<rparr>)"

subsection \<open>The pandas operations the strategy calls\<close>

text \<open>
  \<open>Series.rolling(window=w).mean()\<close>, with the default \<open>min_periods = w\<close>: the entry at
  position \<open>i\<close> is \<open>NaN\<close> while fewer than \<open>w\<close> values end at \<open>i\<close>, and otherwise
  what pandas computes for the window ending at \<open>i\<close>.  A negative window is refused.
\<close>

definition window_mean :: "arith \<Rightarrow> nat \<Rightarrow> pyfloat list \<Rightarrow> nat \<Rightarrow> pyfloat" where
  "window_mean ar w xs i = (if i + 1 < w then NaN else roll_mean ar w (take (i + 1) xs))"

definition rolling_mean :: "arith \<Rightarrow> int \<Rightarrow> pyfloat list \<Rightarrow> error + pyfloat list" where
  "rolling_mean ar w xs =
     (if w < 0 then Inl (ValueError ''window must be an integer 0 or greater'')
      else Inr (map (window_mean ar (nat w) xs) [0..<length xs]))"

text \<open>
  \<open>frame.iloc[k]\<close>: a row by position, a negative position counting from the end;
  \<open>IndexError\<close> outside the frame.
\<close>

definition iloc :: "'a list \<Rightarrow> int \<Rightarrow> error + 'a" where
  "iloc rows k =
     (if 0 \<le> k \<and> k < int (length rows) then Inr (rows ! nat k)
      else if k < 0 \<and> - int (length rows) \<le> k then Inr (rows ! nat (int (length rows) + k))
      else Inl (IndexError ''single positional indexer is out-of-bounds''))"

subsection \<open>generate\_signal\<close>

text \<open>
  \<open>min(0.99, round(0.5 + spread * 10, 2))\<close>, the confidence of a BUY or SELL signal.
  \<open>round\<close> is the method of its argument: of a numpy scalar when \<open>spread\<close> was computed
  from the frame, of a Python float when \<open>spread\<close> is the literal \<open>0.0\<close> that stands in
  for a zero long average.
\<close>

definition round_for :: "arith \<Rightarrow> pyfloat \<Rightarrow> pyfloat \<Rightarrow> nat \<Rightarrow> pyfloat" where
  "round_for ar curr_long = (if truthy curr_long then np_round ar else py_round ar)"

definition confidence_of_spread ::
  "arith \<Rightarrow> (pyfloat \<Rightarrow> nat \<Rightarrow> pyfloat) \<Rightarrow> pyfloat \<Rightarrow> pyfloat"
where
  "confidence_of_spread ar rnd spread =
     py_min lit_0_99 (rnd (fadd ar (Fin (1 / 2)) (fmul ar spread (Fin 10))) 2)"

definition insufficient_data :: error where
  "insufficient_data = ValueError ''Insufficient data for long SMA window''"

text \<open>
  \<open>closes\<close> is the \<open>Close\<close> column of the frame, one entry per bar, and \<open>now\<close> the
  wall-clock reading stamped on the result.
\<close>

definition generate_signal ::
  "arith \<Rightarrow> MovingAverageCrossoverStrategy \<Rightarrow> string \<Rightarrow> pyfloat list \<Rightarrow> string
     \<Rightarrow> error + StrategySignal"
where
  "generate_signal ar self symb closes now =
     (if int (length closes) < long_window self then Inl insufficient_data
      else
       (case rolling_mean ar (short_window self) closes of
          Inl e \<Rightarrow> Inl e
        | Inr sma_short \<Rightarrow>
       (case rolling_mean ar (long_window self) closes of
          Inl e \<Rightarrow> Inl e
        | Inr sma_long \<Rightarrow>
       (case iloc (zip sma_short sma_long) (- 2) of
          Inl e \<Rightarrow> Inl e
        | Inr (prev_short, prev_long) \<Rightarrow>
       (case iloc (zip sma_short sma_long) (- 1) of
          Inl e \<Rightarrow> Inl e
        | Inr (curr_short, curr_long) \<Rightarrow>
          (let sig =
                 (if fle prev_short prev_long \<and> fgt curr_short curr_long then ''BUY''
                  else if fge prev_short prev_long \<and> flt curr_short curr_long then ''SELL''
                  else ''HOLD'');
               spread =
                 (if truthy curr_long
                  then fdiv ar (fabs (fsub ar curr_short curr_long)) curr_long
                  else Fin 0);
               conf = (if sig \<noteq> ''HOLD''
                       then confidence_of_spread ar (round_for ar curr_long) spread
                       else Fin (1 / 2))
           in Inr \<lparr>symbol = symb, signal = sig, confidence = conf, timestamp = now\<rparr>))))))"

subsection \<open>The moving averages the strategy compares\<close>

text \<open>
  The moving average of window \<open>w\<close> that the code reads at the previous bar (row
  \<open>-2\<close>) and at the current bar (row \<open>-1\<close>) of a history of at least two bars, and the
  relative spread the code computes from the current pair, \<open>|short - long| / long\<close> in
  float arithmetic, taken as \<open>0\<close> when the long average is \<open>0\<close>.
\<close>

definition prev_sma :: "arith \<Rightarrow> int \<Rightarrow> pyfloat list \<Rightarrow> pyfloat" where
  "prev_sma ar w closes = window_mean ar (nat w) closes (length closes - 2)"

definition curr_sma :: "arith \<Rightarrow> int \<Rightarrow> pyfloat list \<Rightarrow> pyfloat" where
  "curr_sma ar w closes = window_mean ar (nat w) closes (length closes - 1)"

definition relative_spread :: "arith \<Rightarrow> pyfloat \<Rightarrow> pyfloat \<Rightarrow> pyfloat" where
  "relative_spread ar s l = (if l = Fin 0 then Fin 0 else fdiv ar (fabs (fsub ar s l)) l)"

definition upward_cross ::
  "arith \<Rightarrow> MovingAverageCrossoverStrategy \<Rightarrow> pyfloat list \<Rightarrow> bool"
where
  "upward_cross ar self closes \<longleftrightarrow>
     fle (prev_sma ar (short_window self) closes) (prev_sma ar (long_window self) closes) \<and>
     fgt (curr_sma ar (short_window self) closes) (curr_sma ar (long_window self) closes)"

definition downward_cross ::
  "arith \<Rightarrow> MovingAverageCrossoverStrategy \<Rightarrow> pyfloat list \<Rightarrow> bool"
where
  "downward_cross ar self closes \<longleftrightarrow>
     fge (prev_sma ar (short_window self) closes) (prev_sma ar (long_window self) closes) \<and>
     flt (curr_sma ar (short_window self) closes) (curr_sma ar (long_window self) closes)"

definition current_spread ::
  "arith \<Rightarrow> MovingAverageCrossoverStrategy \<Rightarrow> pyfloat list \<Rightarrow> pyfloat"
where
  "current_spread ar self closes =
     relative_spread ar (curr_sma ar (short_window self) closes)
       (curr_sma ar (long_window self) closes)"

section \<open>Risk engine (risk/risk\_engine.py)\<close>

record RiskDecision =
  approved :: bool
  reason :: string
  max_position_value :: pyfloat
  stop_loss_pct :: pyfloat

record RiskEngine =
  max_capital_per_position :: pyfloat
  max_trades_per_day :: int
  stop_loss_pct :: pyfloat
  max_daily_loss_pct :: pyfloat

text \<open>
  \<open>evaluate(signal, equity, today_trades, daily_pnl)\<close>.  The quotient
  \<open>daily_loss / equity\<close> is a Python float division, which can raise; the conjunction
  evaluates it only when \<open>equity > 0\<close>.
\<close>

definition evaluate ::
  "arith \<Rightarrow> RiskEngine \<Rightarrow> string \<Rightarrow> pyfloat \<Rightarrow> int \<Rightarrow> pyfloat
     \<Rightarrow> error + RiskDecision"
where
  "evaluate ar self sg equity today_trades daily_pnl =
     (if sg = ''HOLD''
      then Inr \<lparr>approved = False, reason = ''Signal is HOLD'', max_position_value = Fin 0,
                stop_loss_pct = RiskEngine.stop_loss_pct self\<rparr>
      else if today_trades \<ge> RiskEngine.max_trades_per_day self
      then Inr \<lparr>approved = False, reason = ''Daily trade limit reached'',
                max_position_value = Fin 0, stop_loss_pct = RiskEngine.stop_loss_pct self\<rparr>
      else
       (let daily_loss = fabs (py_min daily_pnl (Fin 0))
        in case (if fgt equity (Fin 0)
                 then (case py_div ar daily_loss equity of
                         Inl e \<Rightarrow> Inl e
                       | Inr ratio \<Rightarrow> Inr (fgt ratio (RiskEngine.max_daily_loss_pct self)))
                 else Inr False) of
             Inl e \<Rightarrow> Inl e
           | Inr exceeded \<Rightarrow>
               if exceeded
               then Inr \<lparr>approved = False, reason = ''Daily loss limit exceeded'',
                         max_position_value = Fin 0,
                         stop_loss_pct = RiskEngine.stop_loss_pct self\<rparr>
               else
                (let mpv = fmul ar equity (RiskEngine.max_capital_per_position self)
                 in if fle mpv (Fin 0)
                    then Inr \<lparr>approved = False,
                              reason = ''Invalid position sizing from equity'',
                              max_position_value = Fin 0,
                              stop_loss_pct = RiskEngine.stop_loss_pct self\<rparr>
                    else Inr \<lparr>approved = True, reason = ''Approved'',
                              max_position_value = mpv,
                              stop_loss_pct = RiskEngine.stop_loss_pct self\<rparr>)))"

subsection \<open>count\_today\_filled\_trades\<close>

text \<open>
  A \<open>datetime\<close> and the calendar date its \<open>date()\<close> method returns.  An order record
  carries \<open>filled_at\<close>, which is \<open>None\<close> when the order has no fill timestamp (or no
  such attribute).  \<open>today\<close> stands for \<open>datetime.now(timezone.utc).date()\<close>, the
  wall-clock reading the function starts with.
\<close>

datatype date = Date int nat nat

record datetime =
  year :: int
  month :: nat
  day :: nat
  hour :: nat
  minute :: nat
  second :: nat

definition date_of :: "datetime \<Rightarrow> date" where
  "date_of t = Date (year t) (month t) (day t)"

record OrderRecord =
  filled_at :: "datetime option"

text \<open>The body of the \<open>for\<close> loop on the running \<open>total\<close>, and the loop from \<open>total = 0\<close>.\<close>

definition count_step :: "date \<Rightarrow> OrderRecord \<Rightarrow> int \<Rightarrow> int" where
  "count_step today order tally =
     (case filled_at order of
        None \<Rightarrow> tally
      | Some t \<Rightarrow> if date_of t = today then tally + 1 else tally)"

definition count_today_filled_trades :: "date \<Rightarrow> OrderRecord list \<Rightarrow> int" where
  "count_today_filled_trades today orders = fold (count_step today) orders 0"

text \<open>The records the function is meant to count: filled, and filled on the given date.\<close>

definition filled_on :: "date \<Rightarrow> OrderRecord \<Rightarrow> bool" where
  "filled_on today order =
     (case filled_at order of None \<Rightarrow> False | Some t \<Rightarrow> date_of t = today)"

section \<open>Executor (execution/executor.py)\<close>

record ExecutionResult =
  executed :: bool
  reason :: string
  qty :: pyfloat
  order_id :: "string option"

text \<open>
  The broker collaborator.  \<open>submit_order(symbol, qty, side)\<close> either returns an order
  object, of which the executor reads the \<open>id\<close> attribute (absent: \<open>None\<close>), or raises
  an exception, of which the executor reads the message \<open>str(exc)\<close>.  A call made to the
  broker is recorded as a \<open>SubmitOrder\<close>.
\<close>

type_synonym broker = "string \<Rightarrow> pyfloat \<Rightarrow> string \<Rightarrow> string + string option"

datatype broker_call = SubmitOrder string pyfloat string

text \<open>\<open>str(getattr(order, "id", None))\<close>\<close>

definition str_id :: "string option \<Rightarrow> string" where
  "str_id oid = (case oid of None \<Rightarrow> ''None'' | Some i \<Rightarrow> i)"

text \<open>
  \<open>execute(signal, risk_decision, last_price)\<close> returns the result object together with
  the calls it made to the broker.  The quotient is a Python float division and the
  rounding the builtin \<open>round\<close> on a Python float.
\<close>

definition execute ::
  "arith \<Rightarrow> broker \<Rightarrow> StrategySignal \<Rightarrow> RiskDecision \<Rightarrow> pyfloat
     \<Rightarrow> error + ExecutionResult \<times> broker_call list"
where
  "execute ar submit_order sg risk_decision last_price =
     (if \<not> approved risk_decision
      then Inr (\<lparr>executed = False, reason = RiskDecision.reason risk_decision,
                 qty = Fin 0, order_id = None\<rparr>, [])
      else if signal sg \<notin> {''BUY'', ''SELL''}
      then Inr (\<lparr>executed = False, reason = ''Unsupported signal '' @ signal sg,
                 qty = Fin 0, order_id = None\<rparr>, [])
      else if fle last_price (Fin 0)
      then Inr (\<lparr>executed = False, reason = ''Invalid market price'',
                 qty = Fin 0, order_id = None\<rparr>, [])
      else
       (case py_div ar (max_position_value risk_decision) last_price of
          Inl e \<Rightarrow> Inl e
        | Inr ratio \<Rightarrow>
           (let q = py_round ar ratio 4
            in if fle q (Fin 0)
               then Inr (\<lparr>executed = False, reason = ''Calculated quantity is zero'',
                          qty = Fin 0, order_id = None\<rparr>, [])
               else
                (case submit_order (symbol sg) q (signal sg) of
                   Inr order \<Rightarrow>
                     Inr (\<lparr>executed = True, reason = ''Order submitted'', qty = q,
                           order_id = Some (str_id order)\<rparr>,
                          [SubmitOrder (symbol sg) q (signal sg)])
                 | Inl msg \<Rightarrow>
                     Inr (\<lparr>executed = False, reason = msg, qty = q, order_id = None\<rparr>,
                          [SubmitOrder (symbol sg) q (signal sg)])))))"

text \<open>
  The quantity the executor attempts, \<open>round(max_position_value / last_price, 4)\<close> in
  float arithmetic.
\<close>

definition order_qty :: "arith \<Rightarrow> RiskDecision \<Rightarrow> pyfloat \<Rightarrow> pyfloat" where
  "order_qty ar risk_decision last_price =
     py_round ar (fdiv ar (max_position_value risk_decision) last_price) 4"

definition declined :: "string \<Rightarrow> ExecutionResult \<times> broker_call list" where
  "declined r = (\<lparr>executed = False, reason = r, qty = Fin 0, order_id = None\<rparr>, [])"

section \<open>One cycle (main.py)\<close>

text \<open>
  What the collaborators answer during one cycle: the price history of
  \<open>get_ohlcv\<close> (its \<open>Close\<close> column), the account of \<open>get_account\<close>, the orders of
  \<open>get_open_orders\<close>, each of which may raise instead; the broker's \<open>submit_order\<close>;
  and the two wall-clock readings.  An account attribute that is absent is \<open>None\<close>.
\<close>

record AccountSnapshot =
  equity :: pyfloat
  unrealized_pl :: "pyfloat option"
  realized_pl :: "pyfloat option"

record Collaborators =
  get_ohlcv :: "error + pyfloat list"
  get_account :: "error + AccountSnapshot"
  get_open_orders :: "error + OrderRecord list"
  submit_order :: broker
  now_utc :: string
  today_utc :: date

text \<open>The stages of a cycle that were reached, in the order \<open>run\<close> logs them.\<close>

datatype stage =
  signal_generated StrategySignal
| risk_decision RiskDecision
| execution_result ExecutionResult "broker_call list"

text \<open>\<open>AlpacaAdapter.__init__\<close> refuses missing credentials.\<close>

definition adapter_init :: "string \<Rightarrow> string \<Rightarrow> error + unit" where
  "adapter_init api_key secret_key =
     (if api_key = [] \<or> secret_key = []
      then Inl (ValueError ''ALPACA_API_KEY and ALPACA_SECRET_KEY are required.'')
      else Inr ())"

definition getattr_default :: "pyfloat option \<Rightarrow> pyfloat \<Rightarrow> pyfloat" where
  "getattr_default attr dflt = (case attr of None \<Rightarrow> dflt | Some v \<Rightarrow> v)"

text \<open>
  \<open>run()\<close>: the stages reached, and the exception that ended the cycle, if any.
\<close>

definition run :: "arith \<Rightarrow> Settings \<Rightarrow> Collaborators \<Rightarrow> stage list \<times> error option" where
  "run ar settings env =
     (case adapter_init (alpaca_api_key settings) (alpaca_secret_key settings) of
        Inl e \<Rightarrow> ([], Some e)
      | Inr _ \<Rightarrow>
     (case strategy_init (Settings.short_window settings) (Settings.long_window settings) of
        Inl e \<Rightarrow> ([], Some e)
      | Inr strategy \<Rightarrow>
     (let risk_engine =
            \<lparr>max_capital_per_position = Settings.max_capital_per_position settings,
             max_trades_per_day = Settings.max_trades_per_day settings,
             stop_loss_pct = Settings.stop_loss_pct settings,
             max_daily_loss_pct = Settings.max_daily_loss_pct settings\<rparr>
      in case get_ohlcv env of
        Inl e \<Rightarrow> ([], Some e)
      | Inr closes \<Rightarrow>
     (case generate_signal ar strategy (default_symbol settings) closes (now_utc env) of
        Inl e \<Rightarrow> ([], Some e)
      | Inr sg \<Rightarrow>
     (case get_account env of
        Inl e \<Rightarrow> ([signal_generated sg], Some e)
      | Inr account \<Rightarrow>
     (let daily_pnl = fadd ar (getattr_default (unrealized_pl account) (Fin 0))
                           (getattr_default (realized_pl account) (Fin 0))
      in case get_open_orders env of
        Inl e \<Rightarrow> ([signal_generated sg], Some e)
      | Inr open_orders \<Rightarrow>
     (let today_trades = count_today_filled_trades (today_utc env) open_orders
      in case evaluate ar risk_engine (signal sg) (equity account) today_trades daily_pnl of
        Inl e \<Rightarrow> ([signal_generated sg], Some e)
      | Inr decision \<Rightarrow>
     (case iloc closes (- 1) of
        Inl e \<Rightarrow> ([signal_generated sg, risk_decision decision], Some e)
      | Inr last_price \<Rightarrow>
     (case execute ar (submit_order env) sg decision last_price of
        Inl e \<Rightarrow> ([signal_generated sg, risk_decision decision], Some e)
      | Inr (result, calls) \<Rightarrow>
          ([signal_generated sg, risk_decision decision, execution_result result calls],
           None))))))))))"

text \<open>Whether a cycle reached the risk stage or the execution stage.\<close>

fun after_signal :: "stage \<Rightarrow> bool" where
  "after_signal (signal_generated _) = False"
| "after_signal (risk_decision _) = True"
| "after_signal (execution_result _ _) = True"

section \<open>Derived notions used in the statements\<close>

text \<open>
  A rejection of the risk engine, \<open>RiskDecision(False, reason, 0.0, self.stop_loss_pct)\<close>,
  and the third rule's condition: the rule compares the float quotient
  \<open>|min(daily_pnl, 0)| / equity\<close> with the limit, and only for a positive equity.
\<close>

definition rejected :: "RiskEngine \<Rightarrow> string \<Rightarrow> RiskDecision" where
  "rejected self r =
     \<lparr>approved = False, reason = r, max_position_value = Fin 0,
      stop_loss_pct = RiskEngine.stop_loss_pct self\<rparr>"

definition daily_loss_ratio :: "arith \<Rightarrow> pyfloat \<Rightarrow> pyfloat \<Rightarrow> pyfloat" where
  "daily_loss_ratio ar eqty daily_pnl = fdiv ar (fabs (py_min daily_pnl (Fin 0))) eqty"

definition daily_loss_exceeded ::
  "arith \<Rightarrow> RiskEngine \<Rightarrow> pyfloat \<Rightarrow> pyfloat \<Rightarrow> bool"
where
  "daily_loss_exceeded ar self eqty daily_pnl \<longleftrightarrow>
     fgt eqty (Fin 0) \<and>
     fgt (daily_loss_ratio ar eqty daily_pnl) (RiskEngine.max_daily_loss_pct self)"

subsection \<open>Properties of the platform's arithmetic\<close>

text \<open>
  The binary64 numbers, and three properties that binary64 arithmetic and the two
  \<open>round\<close> functions have because they return the representable number nearest to
  the exact result.

  \<^item> \<open>exact_when_representable\<close>: a quotient that is a binary64 number is returned as
    it is, and \<open>round(x, n)\<close> returns an \<open>x\<close> that has no more than \<open>n\<close> decimals.
  \<^item> \<open>keeps_thresholds\<close>: the quotient of a non-negative by a positive float is not
    negative; ten times a non-negative float is not negative; \<open>0.5\<close> plus a
    non-negative float is not below \<open>0.5\<close>; a float not below \<open>0.5\<close> is not rounded
    below \<open>0.5\<close>, by either \<open>round\<close>.  (A result that is not a number counts as not
    below.)
  \<^item> \<open>monotone_steps\<close>: multiplying by ten, adding to \<open>0.5\<close> and rounding a numpy
    scalar to two decimals keep the order of two floats.
\<close>

definition binary64 :: "real \<Rightarrow> bool" where
  "binary64 x \<longleftrightarrow>
     (\<exists>m e :: int. \<bar>m\<bar> < 2 ^ 53 \<and> - 1074 \<le> e \<and> e \<le> 971 \<and> x = of_int m * 2 powr of_int e)"

definition exact_when_representable :: "arith \<Rightarrow> bool" where
  "exact_when_representable ar \<longleftrightarrow>
     (\<forall>a b. b \<noteq> 0 \<and> binary64 a \<and> binary64 b \<and> binary64 (a / b) \<longrightarrow>
        fdiv ar (Fin a) (Fin b) = Fin (a / b)) \<and>
     (\<forall>x n. binary64 x \<and> (\<exists>k :: int. x * 10 ^ n = of_int k) \<longrightarrow>
        py_round ar (Fin x) n = Fin x)"

definition keeps_thresholds :: "arith \<Rightarrow> bool" where
  "keeps_thresholds ar \<longleftrightarrow>
     (\<forall>a b. \<not> flt a (Fin 0) \<and> flt (Fin 0) b \<longrightarrow> \<not> flt (fdiv ar a b) (Fin 0)) \<and>
     (\<forall>x. \<not> flt x (Fin 0) \<longrightarrow> \<not> flt (fmul ar x (Fin 10)) (Fin 0)) \<and>
     (\<forall>x. \<not> flt x (Fin 0) \<longrightarrow> \<not> flt (fadd ar (Fin (1 / 2)) x) (Fin (1 / 2))) \<and>
     (\<forall>x. \<not> flt x (Fin (1 / 2)) \<longrightarrow> \<not> flt (np_round ar x 2) (Fin (1 / 2))) \<and>
     (\<forall>x. \<not> flt x (Fin (1 / 2)) \<longrightarrow> \<not> flt (py_round ar x 2) (Fin (1 / 2)))"


section \<open>An arithmetic for the examples\<close>

text \<open>
  The arithmetic that does not round: each operation returns the exact result, with the
  usual rules for infinities and \<open>NaN\<close>.  Binary64 arithmetic agrees with it wherever the
  exact result is a binary64 number.  The examples below are chosen so that this is the
  case at every step they take; the values they state are therefore the values the
  program computes.
\<close>

fun xneg :: "pyfloat \<Rightarrow> pyfloat" where
  "xneg (Fin a) = Fin (- a)"
| "xneg PInf = NInf"
| "xneg NInf = PInf"
| "xneg NaN = NaN"

fun xadd :: "pyfloat \<Rightarrow> pyfloat \<Rightarrow> pyfloat" where
  "xadd (Fin a) (Fin b) = Fin (a + b)"
| "xadd NaN _ = NaN"
| "xadd _ NaN = NaN"
| "xadd PInf NInf = NaN"
| "xadd NInf PInf = NaN"
| "xadd PInf _ = PInf"
| "xadd _ PInf = PInf"
| "xadd NInf _ = NInf"
| "xadd _ NInf = NInf"

definition xsub :: "pyfloat \<Rightarrow> pyfloat \<Rightarrow> pyfloat" where
  "xsub a b = xadd a (xneg b)"

text \<open>The sign of a float, and the infinity (or \<open>NaN\<close> for no sign) of a sign.\<close>

fun sign_of :: "pyfloat \<Rightarrow> int" where
  "sign_of (Fin a) = (if 0 < a then 1 else if a < 0 then - 1 else 0)"
| "sign_of PInf = 1"
| "sign_of NInf = - 1"
| "sign_of NaN = 0"

definition inf_of_sign :: "int \<Rightarrow> pyfloat" where
  "inf_of_sign s = (if 0 < s then PInf else if s < 0 then NInf else NaN)"

fun xmul :: "pyfloat \<Rightarrow> pyfloat \<Rightarrow> pyfloat" where
  "xmul (Fin a) (Fin b) = Fin (a * b)"
| "xmul a b = inf_of_sign (sign_of a * sign_of b)"

text \<open>
  The quotient; at a zero divisor (which the program never divides by) and for two
  infinities it is \<open>NaN\<close>.
\<close>

fun xdiv :: "pyfloat \<Rightarrow> pyfloat \<Rightarrow> pyfloat" where
  "xdiv (Fin a) (Fin b) = (if b = 0 then NaN else Fin (a / b))"
| "xdiv NaN _ = NaN"
| "xdiv _ NaN = NaN"
| "xdiv (Fin a) _ = Fin 0"
| "xdiv a (Fin b) = inf_of_sign (sign_of a * sign_of (Fin b))"
| "xdiv _ _ = NaN"

text \<open>Rounding to \<open>n\<close> decimals, ties going to the even neighbour.\<close>

definition round_half_even :: "real \<Rightarrow> int" where
  "round_half_even x =
     (let f = \<lfloor>x\<rfloor>; d = x - of_int f
      in if d < 1 / 2 then f
         else if 1 / 2 < d then f + 1
         else if even f then f else f + 1)"

fun xround :: "pyfloat \<Rightarrow> nat \<Rightarrow> pyfloat" where
  "xround (Fin x) n = Fin (of_int (round_half_even (x * 10 ^ n)) / 10 ^ n)"
| "xround a n = a"

text \<open>The mean of the last \<open>w\<close> entries of a column.\<close>

definition xmean :: "nat \<Rightarrow> pyfloat list \<Rightarrow> pyfloat" where
  "xmean w xs = xdiv (foldr xadd (drop (length xs - w) xs) (Fin 0)) (Fin (real w))"

definition exact_arith :: arith where
  "exact_arith =
     \<lparr>fadd = xadd, fsub = xsub, fmul = xmul, fdiv = xdiv,
      py_round = xround, np_round = xround, roll_mean = xmean\<rparr>"

section \<open>Example inputs\<close>

text \<open>
  Risk limits, two brokers (one accepts every order, one refuses every order), decisions
  and signals, and the collaborators of one cycle.  The limits are binary fractions:
  \<open>1/16\<close> of the equity per position, a stop loss of \<open>1/64\<close>, a daily loss limit of
  \<open>1/32\<close>.
\<close>

definition example_engine :: RiskEngine where
  "example_engine =
     \<lparr>max_capital_per_position = Fin (1 / 16), max_trades_per_day = 2,
      stop_loss_pct = Fin (1 / 64), max_daily_loss_pct = Fin (1 / 32)\<rparr>"

definition accepting_broker :: broker where
  "accepting_broker s q sd = Inr (Some ''order-1'')"

definition failing_broker :: broker where
  "failing_broker s q sd = Inl ''insufficient buying power''"

definition approved_for :: "pyfloat \<Rightarrow> RiskDecision" where
  "approved_for v =
     \<lparr>approved = True, reason = ''Approved'', max_position_value = v,
      stop_loss_pct = Fin (1 / 64)\<rparr>"

definition hold_rejection :: RiskDecision where
  "hold_rejection =
     \<lparr>approved = False, reason = ''Signal is HOLD'', max_position_value = Fin 0,
      stop_loss_pct = Fin (1 / 64)\<rparr>"

definition hold_signal :: StrategySignal where
  "hold_signal = \<lparr>symbol = ''SPY'', signal = ''HOLD'', confidence = Fin (1 / 2), timestamp = ''t''\<rparr>"

definition buy_signal :: StrategySignal where
  "buy_signal = \<lparr>symbol = ''SPY'', signal = ''BUY'', confidence = Fin (1 / 2), timestamp = ''t''\<rparr>"

definition example_settings :: Settings where
  "example_settings =
     \<lparr>alpaca_api_key = ''key'', alpaca_secret_key = ''secret'', default_symbol = ''SPY'',
      short_window = 20, long_window = 50,
      max_capital_per_position = Fin (1 / 16), max_trades_per_day = 2,
      stop_loss_pct = Fin (1 / 64), max_daily_loss_pct = Fin (1 / 32)\<rparr>"

definition example_collaborators :: "pyfloat list \<Rightarrow> Collaborators" where
  "example_collaborators closes =
     \<lparr>get_ohlcv = Inr closes,
      get_account = Inr \<lparr>equity = Fin 100000, unrealized_pl = Some (Fin 0),
                         realized_pl = Some (Fin 0)\<rparr>,
      get_open_orders = Inr [],
      submit_order = (\<lambda>s q sd. Inr (Some ''order-1'')),
      now_utc = ''2024-01-02T15:00:00+00:00'',
      today_utc = Date 2024 1 2\<rparr>"

definition order_filled_at :: "int \<Rightarrow> nat \<Rightarrow> nat \<Rightarrow> OrderRecord" where
  "order_filled_at y m d =
     \<lparr>filled_at = Some \<lparr>year = y, month = m, day = d, hour = 14, minute = 30, second = 0\<rparr>\<rparr>"

definition unfilled_order :: OrderRecord where
  "unfilled_order = \<lparr>filled_at = None\<rparr>"

section \<open>Comparisons\<close>

lemma flt_NaN [simp]: "\<not> flt a NaN" "\<not> flt NaN a"
  by (cases a; simp)+

lemma fle_NaN [simp]: "\<not> fle a NaN" "\<not> fle NaN a"
  by (cases a; simp)+

lemma flt_irrefl [simp]: "\<not> flt a a"
  by (cases a) simp_all

lemma flt_asym: "flt a b \<Longrightarrow> \<not> flt b a"
  by (cases a; cases b) simp_all

lemma fle_iff: "fle a b \<longleftrightarrow> a \<noteq> NaN \<and> b \<noteq> NaN \<and> \<not> flt b a"
  by (cases a; cases b) auto

lemma fle_trans: "fle a b \<Longrightarrow> fle b c \<Longrightarrow> fle a c"
  by (cases a; cases b; cases c) simp_all

lemma truthy_iff: "truthy l \<longleftrightarrow> l \<noteq> Fin 0"
  by (cases l) simp_all

lemma fabs_not_negative: "\<not> flt (fabs a) (Fin 0)"
  by (cases a) simp_all

section \<open>What generate\_signal computes\<close>

lemma window_mean_unfilled: "i + 1 < w \<Longrightarrow> window_mean ar w closes i = NaN"
  by (simp add: window_mean_def)

lemma iloc_last2:
  assumes "2 \<le> length rows"
  shows "iloc rows (- 2) = Inr (rows ! (length rows - 2))"
    and "iloc rows (- 1) = Inr (rows ! (length rows - 1))"
  using assms by (simp_all add: iloc_def nat_diff_distrib')

lemma iloc_short:
  assumes "length rows < 2"
  shows "iloc rows (- 2) = Inl (IndexError ''single positional indexer is out-of-bounds'')"
  using assms by (simp add: iloc_def)

lemma generate_signal_returns:
  assumes "0 \<le> short_window self" and "0 \<le> long_window self"
    and "long_window self \<le> int (length closes)" and "2 \<le> length closes"
  shows "generate_signal ar self symb closes now =
     Inr \<lparr>symbol = symb,
          signal = (if upward_cross ar self closes then ''BUY''
                    else if downward_cross ar self closes then ''SELL'' else ''HOLD''),
          confidence = (if upward_cross ar self closes \<or> downward_cross ar self closes
                        then confidence_of_spread ar
                               (round_for ar (curr_sma ar (long_window self) closes))
                               (current_spread ar self closes)
                        else Fin (1 / 2)),
          timestamp = now\<rparr>"
proof -
  let ?rows = "zip (map (window_mean ar (nat (short_window self)) closes) [0..<length closes])
                   (map (window_mean ar (nat (long_window self)) closes) [0..<length closes])"
  have len: "length ?rows = length closes" by simp
  have p: "iloc ?rows (- 2) =
             Inr (prev_sma ar (short_window self) closes, prev_sma ar (long_window self) closes)"
    using assms(4) iloc_last2(1) [of ?rows] unfolding len
    by (simp add: prev_sma_def)
  have c: "iloc ?rows (- 1) =
             Inr (curr_sma ar (short_window self) closes, curr_sma ar (long_window self) closes)"
    using assms(4) iloc_last2(2) [of ?rows] unfolding len
    by (simp add: curr_sma_def)
  show ?thesis
    using assms(1-3)
    by (auto simp: generate_signal_def rolling_mean_def p c Let_def relative_spread_def
          truthy_iff upward_cross_def downward_cross_def current_spread_def round_for_def)
qed

lemma generate_signal_raises:
  shows "int (length closes) < long_window self \<Longrightarrow>
           generate_signal ar self symb closes now = Inl insufficient_data"
    and "long_window self \<le> int (length closes) \<Longrightarrow> short_window self < 0 \<Longrightarrow>
           generate_signal ar self symb closes now =
             Inl (ValueError ''window must be an integer 0 or greater'')"
    and "long_window self \<le> int (length closes) \<Longrightarrow> 0 \<le> short_window self \<Longrightarrow>
           long_window self < 0 \<Longrightarrow>
           generate_signal ar self symb closes now =
             Inl (ValueError ''window must be an integer 0 or greater'')"
    and "long_window self \<le> int (length closes) \<Longrightarrow> 0 \<le> short_window self \<Longrightarrow>
           0 \<le> long_window self \<Longrightarrow> length closes < 2 \<Longrightarrow>
           generate_signal ar self symb closes now =
             Inl (IndexError ''single positional indexer is out-of-bounds'')"
  by (simp_all add: generate_signal_def rolling_mean_def iloc_short)

text \<open>A returned signal was computed from at least two bars with non-negative windows.\<close>

lemma generate_signal_Inr_D:
  assumes "generate_signal ar self symb closes now = Inr s"
  shows "0 \<le> short_window self \<and> 0 \<le> long_window self \<and>
         long_window self \<le> int (length closes) \<and> 2 \<le> length closes"
proof -
  have a: "\<not> int (length closes) < long_window self"
    using assms generate_signal_raises(1) [of closes self ar symb now] by auto
  have b: "\<not> short_window self < 0"
    using assms a generate_signal_raises(2) [of self closes ar symb now] by auto
  have c: "\<not> long_window self < 0"
    using assms a b generate_signal_raises(3) [of self closes ar symb now] by auto
  have d: "\<not> length closes < 2"
    using assms a b c generate_signal_raises(4) [of self closes ar symb now] by auto
  from a b c d show ?thesis by simp
qed

lemma cross_exclusive: "\<not> (upward_cross ar self closes \<and> downward_cross ar self closes)"
  unfolding upward_cross_def downward_cross_def fgt_def
  using flt_asym by blast

text \<open>What a returned signal is, in terms of the two crossings.\<close>

lemma generate_signal_Inr_eq:
  assumes "generate_signal ar self symb closes now = Inr s"
  shows "signal s = (if upward_cross ar self closes then ''BUY''
                     else if downward_cross ar self closes then ''SELL'' else ''HOLD'')"
    and "confidence s = (if upward_cross ar self closes \<or> downward_cross ar self closes
                         then confidence_of_spread ar
                               (round_for ar (curr_sma ar (long_window self) closes))
                               (current_spread ar self closes)
                         else Fin (1 / 2))"
proof -
  from generate_signal_Inr_D [OF assms]
  have c: "0 \<le> short_window self" "0 \<le> long_window self"
    "long_window self \<le> int (length closes)" "2 \<le> length closes" by auto
  from generate_signal_returns [OF c, of ar symb now] assms
  have s: "s = \<lparr>symbol = symb,
          signal = (if upward_cross ar self closes then ''BUY''
                    else if downward_cross ar self closes then ''SELL'' else ''HOLD''),
          confidence = (if upward_cross ar self closes \<or> downward_cross ar self closes
                        then confidence_of_spread ar
                               (round_for ar (curr_sma ar (long_window self) closes))
                               (current_spread ar self closes)
                        else Fin (1 / 2)),
          timestamp = now\<rparr>" by simp
  show "signal s = (if upward_cross ar self closes then ''BUY''
                     else if downward_cross ar self closes then ''SELL'' else ''HOLD'')"
    by (subst s) simp
  show "confidence s = (if upward_cross ar self closes \<or> downward_cross ar self closes
                         then confidence_of_spread ar
                               (round_for ar (curr_sma ar (long_window self) closes))
                               (current_spread ar self closes)
                         else Fin (1 / 2))"
    by (subst s) simp
qed


section \<open>Evaluating the examples\<close>

lemma round_half_even_of_int [simp]: "round_half_even (of_int k) = k"
  by (simp add: round_half_even_def)

lemma round_half_even_mono:
  assumes "x \<le> y"
  shows "round_half_even x \<le> round_half_even y"
proof (cases "\<lfloor>x\<rfloor> = \<lfloor>y\<rfloor>")
  case True
  with assms have "x - of_int \<lfloor>x\<rfloor> \<le> y - of_int \<lfloor>y\<rfloor>" by simp
  with True show ?thesis
    by (auto simp: round_half_even_def Let_def)
next
  case False
  from assms have "\<lfloor>x\<rfloor> \<le> \<lfloor>y\<rfloor>" by (rule floor_mono)
  with False have lt: "\<lfloor>x\<rfloor> + 1 \<le> \<lfloor>y\<rfloor>" by simp
  have up: "round_half_even x \<le> \<lfloor>x\<rfloor> + 1"
    by (simp add: round_half_even_def Let_def)
  have lo: "\<lfloor>y\<rfloor> \<le> round_half_even y"
    by (simp add: round_half_even_def Let_def)
  from up lt lo show ?thesis by linarith
qed

lemmas exact_arith_simps =
  exact_arith_def xsub_def xmean_def inf_of_sign_def round_half_even_def Let_def

lemmas generate_signal_simps =
  generate_signal_def rolling_mean_def iloc_def window_mean_def upt_rec fgt_def fge_def
  confidence_of_spread_def round_for_def py_min_def lit_0_99_def

lemma ex_buy_low:
  "generate_signal exact_arith \<lparr>short_window = 1, long_window = 2\<rparr> ''SPY''
     [Fin 2047, Fin 2047, Fin 2049] ''t'' =
   Inr \<lparr>symbol = ''SPY'', signal = ''BUY'', confidence = Fin (1 / 2), timestamp = ''t''\<rparr>"
  by (simp add: generate_signal_simps exact_arith_simps)

lemma ex_buy_high:
  "generate_signal exact_arith \<lparr>short_window = 1, long_window = 2\<rparr> ''SPY''
     [Fin 3, Fin 1, Fin 3] ''t'' =
   Inr \<lparr>symbol = ''SPY'', signal = ''BUY'', confidence = lit_0_99, timestamp = ''t''\<rparr>"
  by (simp add: generate_signal_simps exact_arith_simps)


lemma ex_hold:
  "generate_signal exact_arith \<lparr>short_window = 1, long_window = 2\<rparr> ''SPY''
     [Fin 3, Fin 4, Fin 5] ''t'' =
   Inr \<lparr>symbol = ''SPY'', signal = ''HOLD'', confidence = Fin (1 / 2), timestamp = ''t''\<rparr>"
  by (simp add: generate_signal_simps exact_arith_simps)

section \<open>The constructor's validation\<close>

text \<open>
  C6.  The constructor of the strategy fails, with the configuration error, exactly when
  \<open>short_window >= long_window\<close>; for \<open>short_window < long_window\<close> it succeeds and
  returns the strategy with these two windows.
\<close>

theorem strategy_init_raises_iff:
  "(short \<ge> long \<longrightarrow> strategy_init short long = Inl config_error) \<and>
   (short < long \<longrightarrow>
      strategy_init short long = Inr \<lparr>short_window = short, long_window = long\<rparr>) \<and>
   ((\<exists>e. strategy_init short long = Inl e) \<longleftrightarrow> short \<ge> long)"
  by (simp add: strategy_init_def)

theorem strategy_init_raises_iff_witness:
  "strategy_init 50 20 = Inl config_error \<and> strategy_init 20 20 = Inl config_error \<and>
   strategy_init 20 50 = Inr \<lparr>short_window = 20, long_window = 50\<rparr>"
  using strategy_init_raises_iff [of 20 50] strategy_init_raises_iff [of 20 20]
    strategy_init_raises_iff [of 50 20]
  by simp

section \<open>The minimum history length\<close>

lemma prev_long_unfilled:
  assumes "int (length closes) = w" and "2 \<le> length closes"
  shows "prev_sma ar w closes = NaN"
proof -
  from assms have "length closes - 2 + 1 < nat w" by auto
  then show ?thesis unfolding prev_sma_def by (rule window_mean_unfilled)
qed

lemma no_cross_at_minimum_history:
  assumes "int (length closes) = long_window self" and "2 \<le> length closes"
  shows "\<not> upward_cross ar self closes" and "\<not> downward_cross ar self closes"
  using prev_long_unfilled [OF assms]
  by (simp_all add: upward_cross_def downward_cross_def fge_def)

text \<open>
  C10.  With \<open>1 <= short_window < long_window\<close> and exactly \<open>long_window\<close> bars,
  \<open>generate_signal\<close> returns HOLD with confidence \<open>0.5\<close> whatever the closing
  prices are and however the averages are rounded: the long average of the previous bar
  is \<open>NaN\<close>, so both comparisons against it are false.  Hence every BUY or SELL comes
  from at least \<open>long_window + 1\<close> bars.
\<close>

theorem minimum_history_holds:
  assumes "1 \<le> short_window self" and "short_window self < long_window self"
  shows "(int (length closes) = long_window self \<longrightarrow>
            generate_signal ar self symb closes now =
              Inr \<lparr>symbol = symb, signal = ''HOLD'', confidence = Fin (1 / 2), timestamp = now\<rparr>) \<and>
         (\<forall>s. generate_signal ar self symb closes now = Inr s \<and> signal s \<noteq> ''HOLD'' \<longrightarrow>
              long_window self + 1 \<le> int (length closes))"
proof (intro conjI impI allI)
  assume len: "int (length closes) = long_window self"
  with assms have "0 \<le> short_window self" "0 \<le> long_window self"
    "long_window self \<le> int (length closes)" "2 \<le> length closes" by auto
  from generate_signal_returns [OF this, of ar symb now]
    no_cross_at_minimum_history [OF len \<open>2 \<le> length closes\<close>, of ar]
  show "generate_signal ar self symb closes now =
          Inr \<lparr>symbol = symb, signal = ''HOLD'', confidence = Fin (1 / 2), timestamp = now\<rparr>"
    by simp
next
  fix s
  assume a: "generate_signal ar self symb closes now = Inr s \<and> signal s \<noteq> ''HOLD''"
  then have r: "generate_signal ar self symb closes now = Inr s" and nh: "signal s \<noteq> ''HOLD''"
    by auto
  from generate_signal_Inr_D [OF r]
  have c: "0 \<le> short_window self" "0 \<le> long_window self"
    "long_window self \<le> int (length closes)" "2 \<le> length closes" by auto
  have "int (length closes) \<noteq> long_window self"
  proof
    assume len: "int (length closes) = long_window self"
    from generate_signal_returns [OF c, of ar symb now]
      no_cross_at_minimum_history [OF len c(4), of ar] r
    have "signal s = ''HOLD''" by auto
    with nh show False by simp
  qed
  with c(3) show "long_window self + 1 \<le> int (length closes)" by simp
qed

theorem minimum_history_holds_witness:
  "generate_signal exact_arith \<lparr>short_window = 1, long_window = 2\<rparr> ''SPY'' [Fin 1, Fin 9] ''t'' =
     Inr \<lparr>symbol = ''SPY'', signal = ''HOLD'', confidence = Fin (1 / 2), timestamp = ''t''\<rparr> \<and>
   generate_signal exact_arith \<lparr>short_window = 1, long_window = 2\<rparr> ''SPY''
     [Fin 3, Fin 1, Fin 3] ''t'' =
     Inr \<lparr>symbol = ''SPY'', signal = ''BUY'', confidence = lit_0_99, timestamp = ''t''\<rparr> \<and>
   (2::int) + 1 \<le> int (length [Fin 3, Fin 1, Fin 3])"
  using
    minimum_history_holds [of "\<lparr>short_window = 1, long_window = 2\<rparr>" "[Fin 1, Fin 9]"
      exact_arith "''SPY''" "''t''"]
    minimum_history_holds [of "\<lparr>short_window = 1, long_window = 2\<rparr>" "[Fin 3, Fin 1, Fin 3]"
      exact_arith "''SPY''" "''t''"]
    ex_buy_high
  by simp

section \<open>The crossover rule\<close>

text \<open>
  C2, as amended.  For every configuration with \<open>0 <= short_window < long_window\<close> and
  every price history with at least \<open>long_window\<close> bars and at least two bars,
  \<open>generate_signal\<close> returns a signal; it is BUY exactly when the previous short average
  is \<open><=\<close> the previous long average and the current short average is \<open>>\<close> the
  current long one, SELL exactly when the previous short average is \<open>>=\<close> the previous
  long one and the current short average is \<open><\<close> the current long one, and HOLD in
  every other case.  The averages are the rolling means as pandas computes them, and a
  comparison with an average that is not yet defined is false.
\<close>

theorem generate_signal_crossover:
  assumes "0 \<le> short_window self" and "short_window self < long_window self"
    and "long_window self \<le> int (length closes)" and "2 \<le> length closes"
  shows "\<exists>s. generate_signal ar self symb closes now = Inr s \<and>
           (signal s = ''BUY'' \<longleftrightarrow>
              fle (prev_sma ar (short_window self) closes) (prev_sma ar (long_window self) closes) \<and>
              fgt (curr_sma ar (short_window self) closes) (curr_sma ar (long_window self) closes)) \<and>
           (signal s = ''SELL'' \<longleftrightarrow>
              fge (prev_sma ar (short_window self) closes) (prev_sma ar (long_window self) closes) \<and>
              flt (curr_sma ar (short_window self) closes) (curr_sma ar (long_window self) closes)) \<and>
           (signal s = ''HOLD'' \<longleftrightarrow>
              \<not> (fle (prev_sma ar (short_window self) closes)
                     (prev_sma ar (long_window self) closes) \<and>
                 fgt (curr_sma ar (short_window self) closes)
                     (curr_sma ar (long_window self) closes)) \<and>
              \<not> (fge (prev_sma ar (short_window self) closes)
                     (prev_sma ar (long_window self) closes) \<and>
                 flt (curr_sma ar (short_window self) closes)
                     (curr_sma ar (long_window self) closes)))"
proof -
  from assms have l: "0 \<le> long_window self" by simp
  note r = generate_signal_returns [OF assms(1) l assms(3,4), of ar symb now]
  show ?thesis
    using cross_exclusive [of ar self closes]
    unfolding r upward_cross_def downward_cross_def by auto
qed

theorem generate_signal_crossover_witness:
  "(\<exists>s. generate_signal exact_arith \<lparr>short_window = 1, long_window = 2\<rparr> ''SPY''
           [Fin 3, Fin 1, Fin 3] ''t'' = Inr s \<and> signal s = ''BUY'') \<and>
   (\<exists>s. generate_signal exact_arith \<lparr>short_window = 1, long_window = 2\<rparr> ''SPY''
           [Fin 1, Fin 3, Fin 1] ''t'' = Inr s \<and> signal s = ''SELL'') \<and>
   (\<exists>s. generate_signal exact_arith \<lparr>short_window = 1, long_window = 2\<rparr> ''SPY''
           [Fin 3, Fin 4, Fin 5] ''t'' = Inr s \<and> signal s = ''HOLD'')"
  using
    generate_signal_crossover [of "\<lparr>short_window = 1, long_window = 2\<rparr>"
      "[Fin 3, Fin 1, Fin 3]" exact_arith "''SPY''" "''t''"]
    generate_signal_crossover [of "\<lparr>short_window = 1, long_window = 2\<rparr>"
      "[Fin 1, Fin 3, Fin 1]" exact_arith "''SPY''" "''t''"]
    generate_signal_crossover [of "\<lparr>short_window = 1, long_window = 2\<rparr>"
      "[Fin 3, Fin 4, Fin 5]" exact_arith "''SPY''" "''t''"]
  by (auto simp: prev_sma_def curr_sma_def window_mean_def fgt_def fge_def exact_arith_simps)

text \<open>
  The constructor accepts a negative short window, which the rolling mean refuses, and
  the windows \<open>0\<close> and \<open>1\<close>, for which a single bar is enough history but has no
  previous row: on both inputs the configuration is valid, the history has
  \<open>long_window\<close> bars, and \<open>generate_signal\<close> raises instead of returning a signal.
  No arithmetic is done before either error.
\<close>

theorem generate_signal_crossover_counterexample:
  "strategy_init (- 1) 1 = Inr \<lparr>short_window = - 1, long_window = 1\<rparr> \<and>
   generate_signal exact_arith \<lparr>short_window = - 1, long_window = 1\<rparr> ''SPY'' [Fin 100] ''t'' =
     Inl (ValueError ''window must be an integer 0 or greater'') \<and>
   strategy_init 0 1 = Inr \<lparr>short_window = 0, long_window = 1\<rparr> \<and>
   generate_signal exact_arith \<lparr>short_window = 0, long_window = 1\<rparr> ''SPY'' [Fin 100] ''t'' =
     Inl (IndexError ''single positional indexer is out-of-bounds'')"
  by (simp add: strategy_init_def generate_signal_def rolling_mean_def iloc_def)

section \<open>Too short a history\<close>

lemma generate_signal_not_insufficient:
  assumes "long_window self \<le> int (length closes)"
  shows "generate_signal ar self symb closes now \<noteq> Inl insufficient_data"
proof (cases "generate_signal ar self symb closes now")
  case (Inr s)
  then show ?thesis by simp
next
  case (Inl e)
  consider "short_window self < 0" | "0 \<le> short_window self" "long_window self < 0"
    | "0 \<le> short_window self" "0 \<le> long_window self" "length closes < 2"
    | "0 \<le> short_window self" "0 \<le> long_window self" "2 \<le> length closes"
    by linarith
  then show ?thesis
  proof cases
    case 1
    from generate_signal_raises(2) [OF assms 1] show ?thesis
      by (simp add: insufficient_data_def)
  next
    case 2
    from generate_signal_raises(3) [OF assms 2] show ?thesis
      by (simp add: insufficient_data_def)
  next
    case 3
    from generate_signal_raises(4) [OF assms 3] show ?thesis
      by (simp add: insufficient_data_def)
  next
    case 4
    from generate_signal_returns [OF 4(1,2) assms 4(3)] show ?thesis by simp
  qed
qed

lemma run_insufficient:
  assumes "alpaca_api_key settings \<noteq> []" and "alpaca_secret_key settings \<noteq> []"
    and "Settings.short_window settings < Settings.long_window settings"
    and "get_ohlcv env = Inr closes"
    and "int (length closes) < Settings.long_window settings"
  shows "run ar settings env = ([], Some insufficient_data)"
proof -
  have g: "generate_signal ar
             \<lparr>short_window = Settings.short_window settings,
              long_window = Settings.long_window settings\<rparr>
             (default_symbol settings) closes (now_utc env) = Inl insufficient_data"
    by (rule generate_signal_raises(1)) (simp add: assms(5))
  show ?thesis
    using assms(1-4) by (simp add: run_def adapter_init_def strategy_init_def g)
qed

text \<open>
  C7.  With fewer bars than \<open>long_window\<close>, \<open>generate_signal\<close> raises the
  insufficient-data error; with at least \<open>long_window\<close> bars it does not raise that
  error.  In a cycle with credentials, a valid configuration and such a short history, the
  error ends the cycle before the risk and the execution stage: no stage is logged and
  no order is submitted.
\<close>

theorem insufficient_data_aborts:
  "(int (length closes) < long_window self \<longrightarrow>
      generate_signal ar self symb closes now = Inl insufficient_data) \<and>
   (long_window self \<le> int (length closes) \<longrightarrow>
      generate_signal ar self symb closes now \<noteq> Inl insufficient_data) \<and>
   (alpaca_api_key settings \<noteq> [] \<and> alpaca_secret_key settings \<noteq> [] \<and>
    Settings.short_window settings < Settings.long_window settings \<and>
    get_ohlcv env = Inr closes \<and> int (length closes) < Settings.long_window settings \<longrightarrow>
      run ar settings env = ([], Some insufficient_data) \<and>
      \<not> list_ex after_signal (fst (run ar settings env)))"
proof (intro conjI impI)
  assume "int (length closes) < long_window self"
  then show "generate_signal ar self symb closes now = Inl insufficient_data"
    by (rule generate_signal_raises(1))
next
  assume "long_window self \<le> int (length closes)"
  then show "generate_signal ar self symb closes now \<noteq> Inl insufficient_data"
    by (rule generate_signal_not_insufficient)
next
  assume a: "alpaca_api_key settings \<noteq> [] \<and> alpaca_secret_key settings \<noteq> [] \<and>
    Settings.short_window settings < Settings.long_window settings \<and>
    get_ohlcv env = Inr closes \<and> int (length closes) < Settings.long_window settings"
  then show r: "run ar settings env = ([], Some insufficient_data)"
    using run_insufficient [of settings env closes ar] by blast
  show "\<not> list_ex after_signal (fst (run ar settings env))"
    unfolding r by simp
qed

theorem insufficient_data_aborts_witness:
  "generate_signal exact_arith \<lparr>short_window = 20, long_window = 50\<rparr> ''SPY''
     [Fin 100, Fin 101] ''t'' = Inl insufficient_data \<and>
   generate_signal exact_arith \<lparr>short_window = 1, long_window = 2\<rparr> ''SPY''
     [Fin 100, Fin 101] ''t'' \<noteq> Inl insufficient_data \<and>
   run exact_arith example_settings (example_collaborators [Fin 100, Fin 101]) =
     ([], Some insufficient_data)"
  using
    insufficient_data_aborts [where self = "\<lparr>short_window = 20, long_window = 50\<rparr>"
      and closes = "[Fin 100, Fin 101]" and symb = "''SPY''" and now = "''t''"
      and ar = exact_arith
      and settings = example_settings and env = "example_collaborators [Fin 100, Fin 101]"]
    insufficient_data_aborts [where self = "\<lparr>short_window = 1, long_window = 2\<rparr>"
      and closes = "[Fin 100, Fin 101]" and symb = "''SPY''" and now = "''t''"
      and ar = exact_arith
      and settings = example_settings and env = "example_collaborators [Fin 100, Fin 101]"]
  by (simp add: example_settings_def example_collaborators_def)

section \<open>The arithmetic of the examples has the three properties\<close>

lemma xround_Fin_mono:
  assumes "a \<le> b"
  shows "real_of_int (round_half_even (a * 10 ^ n)) / 10 ^ n
       \<le> real_of_int (round_half_even (b * 10 ^ n)) / 10 ^ n"
proof -
  from assms have "a * 10 ^ n \<le> b * 10 ^ n" by simp
  then have "round_half_even (a * 10 ^ n) \<le> round_half_even (b * 10 ^ n)"
    by (rule round_half_even_mono)
  then show ?thesis by (simp add: divide_right_mono)
qed





lemma xdiv_threshold: "\<not> flt a (Fin 0) \<Longrightarrow> flt (Fin 0) b \<Longrightarrow> \<not> flt (xdiv a b) (Fin 0)"
  by (cases a; cases b) (simp_all add: inf_of_sign_def not_less)

lemma xmul_ten_threshold: "\<not> flt x (Fin 0) \<Longrightarrow> \<not> flt (xmul x (Fin 10)) (Fin 0)"
  by (cases x) (simp_all add: inf_of_sign_def)

lemma xadd_half_threshold: "\<not> flt x (Fin 0) \<Longrightarrow> \<not> flt (xadd (Fin (1 / 2)) x) (Fin (1 / 2))"
  by (cases x) simp_all

lemma xround_half_threshold: "\<not> flt x (Fin (1 / 2)) \<Longrightarrow> \<not> flt (xround x 2) (Fin (1 / 2))"
proof (cases x)
  case (Fin a)
  assume "\<not> flt x (Fin (1 / 2))"
  with Fin have "1 / 2 \<le> a" by simp
  from xround_Fin_mono [OF this, of 2] show ?thesis
    unfolding Fin by (simp add: round_half_even_def)
qed simp_all

lemma exact_arith_keeps_thresholds: "keeps_thresholds exact_arith"
  by (simp add: keeps_thresholds_def exact_arith_def xdiv_threshold xmul_ten_threshold
      xadd_half_threshold xround_half_threshold)

lemma round_exact:
  assumes "x * 10 ^ n = real_of_int k"
  shows "real_of_int (round_half_even (x * 10 ^ n)) / 10 ^ n = x"
proof -
  have "real_of_int (round_half_even (x * 10 ^ n)) = x * 10 ^ n"
    unfolding assms by simp
  then show ?thesis by simp
qed

lemma exact_arith_exact: "exact_when_representable exact_arith"
proof -
  have d: "fdiv exact_arith (Fin a) (Fin b) = Fin (a / b)" if "b \<noteq> 0" for a b
    using that by (simp add: exact_arith_def)
  have r: "py_round exact_arith (Fin x) n = Fin x" if "\<exists>k :: int. x * 10 ^ n = of_int k" for x n
  proof -
    from that obtain k :: int where "x * 10 ^ n = real_of_int k" by blast
    from round_exact [OF this] show ?thesis by (simp add: exact_arith_def)
  qed
  show ?thesis
    unfolding exact_when_representable_def using d r by blast
qed

section \<open>The confidence of a signal\<close>

lemma py_min_cap: "fle (py_min lit_0_99 r) lit_0_99"
  by (cases r) (simp_all add: py_min_def lit_0_99_def)

lemma py_min_floor:
  assumes "\<not> flt r (Fin (1 / 2))"
  shows "fle (Fin (1 / 2)) (py_min lit_0_99 r)"
  using assms by (cases r) (simp_all add: py_min_def lit_0_99_def)

lemma confidence_of_spread_upper: "fle (confidence_of_spread ar rnd s) lit_0_99"
  unfolding confidence_of_spread_def by (rule py_min_cap)

lemma round_for_threshold:
  assumes "keeps_thresholds ar" and "\<not> flt x (Fin (1 / 2))"
  shows "\<not> flt (round_for ar l x 2) (Fin (1 / 2))"
  using assms by (simp add: keeps_thresholds_def round_for_def)

lemma confidence_of_spread_lower:
  assumes "keeps_thresholds ar" and "\<not> flt s (Fin 0)"
  shows "fle (Fin (1 / 2)) (confidence_of_spread ar (round_for ar l) s)"
proof -
  from assms have "\<not> flt (fmul ar s (Fin 10)) (Fin 0)"
    by (simp add: keeps_thresholds_def)
  with assms(1) have "\<not> flt (fadd ar (Fin (1 / 2)) (fmul ar s (Fin 10))) (Fin (1 / 2))"
    by (simp add: keeps_thresholds_def)
  with assms(1)
  have "\<not> flt (round_for ar l (fadd ar (Fin (1 / 2)) (fmul ar s (Fin 10))) 2) (Fin (1 / 2))"
    by (rule round_for_threshold)
  then show ?thesis
    unfolding confidence_of_spread_def by (rule py_min_floor)
qed


lemma relative_spread_not_negative:
  assumes "keeps_thresholds ar" and "fle (Fin 0) l"
  shows "\<not> flt (relative_spread ar s l) (Fin 0)"
proof (cases "l = Fin 0")
  case True
  then show ?thesis by (simp add: relative_spread_def)
next
  case False
  with assms(2) have "flt (Fin 0) l" by (cases l) simp_all
  with assms(1) fabs_not_negative [of "fsub ar s l"]
  have "\<not> flt (fdiv ar (fabs (fsub ar s l)) l) (Fin 0)"
    by (simp add: keeps_thresholds_def)
  with False show ?thesis by (simp add: relative_spread_def)
qed

text \<open>
  C5, as amended.  For every signal that \<open>generate_signal\<close> returns: the confidence of
  a HOLD signal is exactly \<open>0.5\<close>; the confidence of a BUY or SELL signal is
  \<open>min(0.99, round(0.5 + spread * 10, 2))\<close> in float arithmetic, with \<open>spread\<close> the
  float \<open>|short - long| / long\<close> of the current averages, taken as \<open>0\<close> when the
  current long average is \<open>0\<close>; the confidence never exceeds \<open>0.99\<close>; and, the
  arithmetic keeping the thresholds, it is at least \<open>0.5\<close> whenever the signal is HOLD
  or the current long average is not negative.
\<close>

theorem confidence_of_generated_signal:
  assumes "generate_signal ar self symb closes now = Inr s"
  shows "(signal s = ''HOLD'' \<longrightarrow> confidence s = Fin (1 / 2)) \<and>
         (signal s = ''BUY'' \<or> signal s = ''SELL'' \<longrightarrow>
            confidence s =
              py_min lit_0_99
                (round_for ar (curr_sma ar (long_window self) closes)
                   (fadd ar (Fin (1 / 2)) (fmul ar (current_spread ar self closes) (Fin 10))) 2)) \<and>
         fle (confidence s) lit_0_99 \<and>
         (keeps_thresholds ar \<and>
          (signal s = ''HOLD'' \<or> fle (Fin 0) (curr_sma ar (long_window self) closes)) \<longrightarrow>
            fle (Fin (1 / 2)) (confidence s))"
proof (cases "upward_cross ar self closes \<or> downward_cross ar self closes")
  case False
  with generate_signal_Inr_eq [OF assms] show ?thesis
    by (simp add: lit_0_99_def)
next
  case True
  with generate_signal_Inr_eq [OF assms]
  have sg: "signal s \<noteq> ''HOLD''" "signal s = ''BUY'' \<or> signal s = ''SELL''"
    and cf: "confidence s =
               confidence_of_spread ar (round_for ar (curr_sma ar (long_window self) closes))
                 (current_spread ar self closes)"
    by auto
  have low: "fle (Fin (1 / 2)) (confidence s)"
    if "keeps_thresholds ar" "fle (Fin 0) (curr_sma ar (long_window self) closes)"
    unfolding cf current_spread_def
    using that(1) relative_spread_not_negative [OF that]
    by (rule confidence_of_spread_lower)
  from sg cf low show ?thesis
    by (simp add: confidence_of_spread_upper) (simp add: confidence_of_spread_def)
qed

theorem confidence_of_generated_signal_witness:
  "generate_signal exact_arith \<lparr>short_window = 1, long_window = 2\<rparr> ''SPY''
     [Fin 2047, Fin 2047, Fin 2049] ''t'' =
     Inr \<lparr>symbol = ''SPY'', signal = ''BUY'', confidence = Fin (1 / 2), timestamp = ''t''\<rparr> \<and>
   keeps_thresholds exact_arith \<and>
   fle (Fin 0) (curr_sma exact_arith 2 [Fin 2047, Fin 2047, Fin 2049]) \<and>
   fle (Fin (1 / 2)) (Fin (1 / 2)) \<and> fle (Fin (1 / 2)) lit_0_99 \<and>
   generate_signal exact_arith \<lparr>short_window = 1, long_window = 2\<rparr> ''SPY''
     [Fin 3, Fin 4, Fin 5] ''t'' =
     Inr \<lparr>symbol = ''SPY'', signal = ''HOLD'', confidence = Fin (1 / 2), timestamp = ''t''\<rparr>"
proof -
  have l: "fle (Fin 0) (curr_sma exact_arith 2 [Fin 2047, Fin 2047, Fin 2049])"
    by (simp add: curr_sma_def window_mean_def exact_arith_simps)
  from confidence_of_generated_signal [OF ex_buy_low] confidence_of_generated_signal [OF ex_hold]
    l ex_buy_low ex_hold exact_arith_keeps_thresholds
  show ?thesis
    by (simp add: lit_0_99_def)
qed

text \<open>
  With negative closing prices the current long average is negative, the spread is
  negative, and the confidence of the BUY signal falls below \<open>0.5\<close>: the averages are
  \<open>-2\<close> and \<open>-1\<close>, the spread is \<open>2 / (-1)\<close>, and \<open>0.5 + (-2) * 10 = -19.5\<close>, all
  of them binary64 numbers.
\<close>

theorem confidence_of_generated_signal_counterexample:
  "generate_signal exact_arith \<lparr>short_window = 1, long_window = 2\<rparr> ''SPY''
     [Fin (- 1), Fin (- 3), Fin 1] ''t'' =
     Inr \<lparr>symbol = ''SPY'', signal = ''BUY'', confidence = Fin (- 39 / 2), timestamp = ''t''\<rparr> \<and>
   \<not> fle (Fin (1 / 2)) (Fin (- 39 / 2))"
  by (simp add: generate_signal_simps exact_arith_simps)



section \<open>The order of the risk rules\<close>

lemma py_div_positive: "fgt b (Fin 0) \<Longrightarrow> py_div ar a b = Inr (fdiv ar a b)"
  by (cases b) (auto simp: py_div_def fgt_def)

lemma py_div_not_le_zero: "\<not> fle b (Fin 0) \<Longrightarrow> py_div ar a b = Inr (fdiv ar a b)"
  by (cases b) (auto simp: py_div_def)

lemma evaluate_eq:
  "evaluate ar self sg eqty today_trades daily_pnl =
     Inr (if sg = ''HOLD'' then rejected self ''Signal is HOLD''
          else if today_trades \<ge> RiskEngine.max_trades_per_day self
          then rejected self ''Daily trade limit reached''
          else if daily_loss_exceeded ar self eqty daily_pnl
          then rejected self ''Daily loss limit exceeded''
          else if fle (fmul ar eqty (RiskEngine.max_capital_per_position self)) (Fin 0)
          then rejected self ''Invalid position sizing from equity''
          else \<lparr>approved = True, reason = ''Approved'',
                 max_position_value = fmul ar eqty (RiskEngine.max_capital_per_position self),
                 stop_loss_pct = RiskEngine.stop_loss_pct self\<rparr>)"
  by (simp add: evaluate_def rejected_def daily_loss_exceeded_def daily_loss_ratio_def Let_def
      py_div_positive)

text \<open>
  C1.  \<open>evaluate\<close> never raises and applies its rules in this order, the first matching
  rule winning: (1) a HOLD signal is rejected with "Signal is HOLD" and a maximum position
  value of \<open>0\<close>; (2) otherwise \<open>today_trades >= max_trades_per_day\<close> is rejected with
  "Daily trade limit reached"; (3) otherwise, with \<open>daily_loss = |min(daily_pnl, 0)|\<close>, a
  positive equity whose float quotient \<open>daily_loss / equity\<close> is strictly greater than
  \<open>max_daily_loss_pct\<close> is rejected with "Daily loss limit exceeded", and a quotient equal
  to the limit is not; (4) otherwise a float product
  \<open>equity * max_capital_per_position <= 0\<close> is rejected with "Invalid position sizing
  from equity"; (5) otherwise the decision is approved with that product as
  \<open>max_position_value\<close>.
\<close>

theorem evaluate_rules_in_order:
  "(sg = ''HOLD'' \<longrightarrow>
      evaluate ar self sg eqty today_trades daily_pnl =
        Inr (rejected self ''Signal is HOLD'')) \<and>
   (sg \<noteq> ''HOLD'' \<and> today_trades \<ge> RiskEngine.max_trades_per_day self \<longrightarrow>
      evaluate ar self sg eqty today_trades daily_pnl =
        Inr (rejected self ''Daily trade limit reached'')) \<and>
   (sg \<noteq> ''HOLD'' \<and> today_trades < RiskEngine.max_trades_per_day self \<and>
    daily_loss_exceeded ar self eqty daily_pnl \<longrightarrow>
      evaluate ar self sg eqty today_trades daily_pnl =
        Inr (rejected self ''Daily loss limit exceeded'')) \<and>
   (sg \<noteq> ''HOLD'' \<and> today_trades < RiskEngine.max_trades_per_day self \<and>
    \<not> daily_loss_exceeded ar self eqty daily_pnl \<and>
    fle (fmul ar eqty (RiskEngine.max_capital_per_position self)) (Fin 0) \<longrightarrow>
      evaluate ar self sg eqty today_trades daily_pnl =
        Inr (rejected self ''Invalid position sizing from equity'')) \<and>
   (sg \<noteq> ''HOLD'' \<and> today_trades < RiskEngine.max_trades_per_day self \<and>
    \<not> daily_loss_exceeded ar self eqty daily_pnl \<and>
    \<not> fle (fmul ar eqty (RiskEngine.max_capital_per_position self)) (Fin 0) \<longrightarrow>
      evaluate ar self sg eqty today_trades daily_pnl =
        Inr \<lparr>approved = True, reason = ''Approved'',
             max_position_value = fmul ar eqty (RiskEngine.max_capital_per_position self),
             stop_loss_pct = RiskEngine.stop_loss_pct self\<rparr>) \<and>
   (daily_loss_exceeded ar self eqty daily_pnl \<longleftrightarrow>
      flt (Fin 0) eqty \<and>
      flt (RiskEngine.max_daily_loss_pct self)
          (fdiv ar (fabs (py_min daily_pnl (Fin 0))) eqty)) \<and>
   (fdiv ar (fabs (py_min daily_pnl (Fin 0))) eqty = RiskEngine.max_daily_loss_pct self \<longrightarrow>
      \<not> daily_loss_exceeded ar self eqty daily_pnl)"
  by (simp add: evaluate_eq daily_loss_exceeded_def daily_loss_ratio_def fgt_def)

theorem evaluate_rules_in_order_witness:
  "evaluate exact_arith example_engine ''HOLD'' (Fin 1024) 0 (Fin 0) =
     Inr (rejected example_engine ''Signal is HOLD'') \<and>
   evaluate exact_arith example_engine ''BUY'' (Fin 1024) 2 (Fin 0) =
     Inr (rejected example_engine ''Daily trade limit reached'') \<and>
   evaluate exact_arith example_engine ''BUY'' (Fin 1024) 0 (Fin (- 64)) =
     Inr (rejected example_engine ''Daily loss limit exceeded'') \<and>
   evaluate exact_arith example_engine ''BUY'' (Fin 0) 0 (Fin 0) =
     Inr (rejected example_engine ''Invalid position sizing from equity'') \<and>
   evaluate exact_arith example_engine ''BUY'' (Fin 1024) 0 (Fin (- 32)) =
     Inr \<lparr>approved = True, reason = ''Approved'', max_position_value = Fin 64,
          stop_loss_pct = Fin (1 / 64)\<rparr>"
  using
    evaluate_rules_in_order [where sg = "''HOLD''" and ar = exact_arith
      and self = example_engine and eqty = "Fin 1024" and today_trades = 0
      and daily_pnl = "Fin 0"]
    evaluate_rules_in_order [where sg = "''BUY''" and ar = exact_arith
      and self = example_engine and eqty = "Fin 1024" and today_trades = 2
      and daily_pnl = "Fin 0"]
    evaluate_rules_in_order [where sg = "''BUY''" and ar = exact_arith
      and self = example_engine and eqty = "Fin 1024" and today_trades = 0
      and daily_pnl = "Fin (- 64)"]
    evaluate_rules_in_order [where sg = "''BUY''" and ar = exact_arith
      and self = example_engine and eqty = "Fin 0" and today_trades = 0
      and daily_pnl = "Fin 0"]
    evaluate_rules_in_order [where sg = "''BUY''" and ar = exact_arith
      and self = example_engine and eqty = "Fin 1024" and today_trades = 0
      and daily_pnl = "Fin (- 32)"]
  by (simp add: example_engine_def daily_loss_exceeded_def daily_loss_ratio_def fgt_def
      py_min_def exact_arith_def)

section \<open>Counting today's fills\<close>

lemma fold_count_step:
  "fold (count_step today) orders n = n + int (length (filter (filled_on today) orders))"
  by (induction orders arbitrary: n)
     (simp_all add: count_step_def filled_on_def split: option.splits)

lemma filled_on_has_timestamp: "filled_on today order \<Longrightarrow> filled_at order \<noteq> None"
  by (auto simp: filled_on_def split: option.splits)

text \<open>
  C9.  \<open>count_today_filled_trades\<close> returns the number of the records that have a fill
  timestamp whose date is the current UTC date; the empty list gives \<open>0\<close>, and removing
  the records without a fill timestamp does not change the count.
\<close>

theorem count_today_filled_trades_counts:
  "count_today_filled_trades today orders = int (length (filter (filled_on today) orders)) \<and>
   count_today_filled_trades today [] = 0 \<and>
   count_today_filled_trades today (filter (\<lambda>order. filled_at order \<noteq> None) orders) =
     count_today_filled_trades today orders"
proof -
  have "filter (filled_on today) (filter (\<lambda>order. filled_at order \<noteq> None) orders) =
        filter (filled_on today) orders"
    using filled_on_has_timestamp [of today] by (auto simp: filter_filter intro!: filter_cong)
  then show ?thesis
    by (simp add: count_today_filled_trades_def fold_count_step)
qed

theorem count_today_filled_trades_counts_witness:
  "count_today_filled_trades (Date 2024 1 2)
     [order_filled_at 2024 1 2, unfilled_order, order_filled_at 2024 1 1,
      order_filled_at 2024 1 2] = 2 \<and>
   length (filter (filled_on (Date 2024 1 2))
     [order_filled_at 2024 1 2, unfilled_order, order_filled_at 2024 1 1,
      order_filled_at 2024 1 2]) = 2"
  using count_today_filled_trades_counts [of "Date 2024 1 2"
      "[order_filled_at 2024 1 2, unfilled_order, order_filled_at 2024 1 1,
        order_filled_at 2024 1 2]"]
  by (simp add: filled_on_def order_filled_at_def unfilled_order_def date_of_def)

section \<open>The executor's checks\<close>

lemma execute_eq:
  "execute ar br sg rd lp =
     Inr (if \<not> approved rd then declined (RiskDecision.reason rd)
          else if signal sg \<noteq> ''BUY'' \<and> signal sg \<noteq> ''SELL''
          then declined (''Unsupported signal '' @ signal sg)
          else if fle lp (Fin 0) then declined ''Invalid market price''
          else if fle (order_qty ar rd lp) (Fin 0) then declined ''Calculated quantity is zero''
          else (case br (symbol sg) (order_qty ar rd lp) (signal sg) of
                  Inr order \<Rightarrow>
                    (\<lparr>executed = True, reason = ''Order submitted'', qty = order_qty ar rd lp,
                      order_id = Some (str_id order)\<rparr>,
                     [SubmitOrder (symbol sg) (order_qty ar rd lp) (signal sg)])
                | Inl msg \<Rightarrow>
                    (\<lparr>executed = False, reason = msg, qty = order_qty ar rd lp,
                      order_id = None\<rparr>,
                     [SubmitOrder (symbol sg) (order_qty ar rd lp) (signal sg)])))"
  by (simp add: execute_def declined_def order_qty_def Let_def py_div_not_le_zero
      split: sum.splits)

lemma execute_submits:
  assumes "approved rd" and "signal sg = ''BUY'' \<or> signal sg = ''SELL''"
    and "\<not> fle lp (Fin 0)" and "\<not> fle (order_qty ar rd lp) (Fin 0)"
  shows "execute ar br sg rd lp =
     Inr (case br (symbol sg) (order_qty ar rd lp) (signal sg) of
            Inr order \<Rightarrow>
              (\<lparr>executed = True, reason = ''Order submitted'', qty = order_qty ar rd lp,
                order_id = Some (str_id order)\<rparr>,
               [SubmitOrder (symbol sg) (order_qty ar rd lp) (signal sg)])
          | Inl msg \<Rightarrow>
              (\<lparr>executed = False, reason = msg, qty = order_qty ar rd lp, order_id = None\<rparr>,
               [SubmitOrder (symbol sg) (order_qty ar rd lp) (signal sg)]))"
proof -
  from assms(2) have "\<not> (signal sg \<noteq> ''BUY'' \<and> signal sg \<noteq> ''SELL'')" by blast
  with assms(1,3,4) show ?thesis
    by (simp only: execute_eq not_not not_True_eq_False if_True if_False)
qed

lemma binary64_int:
  assumes "\<bar>k\<bar> < 2 ^ 53"
  shows "binary64 (of_int k)"
  unfolding binary64_def using assms by (intro exI [of _ k] exI [of _ 0]) simp

lemma order_qty_5000_100:
  assumes "exact_when_representable ar"
    and "max_position_value rd = Fin 5000" and "lp = Fin 100"
  shows "order_qty ar rd lp = Fin 50"
proof -
  have b: "binary64 5000" "binary64 100" "binary64 50"
    using binary64_int [of 5000] binary64_int [of 100] binary64_int [of 50] by simp_all
  then have "binary64 (5000 / 100)" by simp
  with assms(1) b have d: "fdiv ar (Fin 5000) (Fin 100) = Fin (5000 / 100)"
    unfolding exact_when_representable_def by (metis zero_neq_numeral)
  have "\<exists>k :: int. (50 :: real) * 10 ^ 4 = of_int k"
    by (intro exI [of _ 500000]) simp
  with assms(1) b(3) have r: "py_round ar (Fin 50) 4 = Fin 50"
    unfolding exact_when_representable_def by blast
  from d r show ?thesis
    by (simp add: order_qty_def assms(2,3))
qed

text \<open>
  C3.  \<open>execute\<close> checks in this order: a decision that is not approved is declined with
  the decision's reason and quantity \<open>0\<close>; otherwise a signal other than BUY and SELL is
  declined with "Unsupported signal" followed by the signal; otherwise
  \<open>last_price <= 0\<close> is declined with "Invalid market price"; otherwise, with
  \<open>qty = round(max_position_value / last_price, 4)\<close> in float arithmetic, \<open>qty <= 0\<close>
  is declined with "Calculated quantity is zero"; otherwise the order (symbol, qty,
  signal) is submitted to the broker, once, and the result carries \<open>qty\<close>.  A declined
  result has quantity \<open>0\<close> and no call to the broker.  With
  \<open>max_position_value = 5000\<close> and \<open>last_price = 100\<close> the quantity is \<open>50\<close>, the
  quotient and the rounding being exact on binary64 numbers.
\<close>

theorem execute_checks_in_order:
  "(\<not> approved rd \<longrightarrow> execute ar br sg rd lp = Inr (declined (RiskDecision.reason rd))) \<and>
   (approved rd \<and> signal sg \<noteq> ''BUY'' \<and> signal sg \<noteq> ''SELL'' \<longrightarrow>
      execute ar br sg rd lp = Inr (declined (''Unsupported signal '' @ signal sg))) \<and>
   (approved rd \<and> (signal sg = ''BUY'' \<or> signal sg = ''SELL'') \<and> fle lp (Fin 0) \<longrightarrow>
      execute ar br sg rd lp = Inr (declined ''Invalid market price'')) \<and>
   (approved rd \<and> (signal sg = ''BUY'' \<or> signal sg = ''SELL'') \<and> \<not> fle lp (Fin 0) \<and>
    fle (order_qty ar rd lp) (Fin 0) \<longrightarrow>
      execute ar br sg rd lp = Inr (declined ''Calculated quantity is zero'')) \<and>
   (approved rd \<and> (signal sg = ''BUY'' \<or> signal sg = ''SELL'') \<and> \<not> fle lp (Fin 0) \<and>
    \<not> fle (order_qty ar rd lp) (Fin 0) \<longrightarrow>
      (\<exists>r. execute ar br sg rd lp =
             Inr (r, [SubmitOrder (symbol sg) (order_qty ar rd lp) (signal sg)]) \<and>
           qty r = order_qty ar rd lp \<and>
           (\<forall>order. br (symbol sg) (order_qty ar rd lp) (signal sg) = Inr order \<longrightarrow>
              r = \<lparr>executed = True, reason = ''Order submitted'', qty = order_qty ar rd lp,
                    order_id = Some (str_id order)\<rparr>))) \<and>
   (exact_when_representable ar \<and> max_position_value rd = Fin 5000 \<and> lp = Fin 100 \<longrightarrow>
      order_qty ar rd lp = Fin 50)"
proof (intro conjI impI)
  assume "\<not> approved rd"
  then show "execute ar br sg rd lp = Inr (declined (RiskDecision.reason rd))"
    by (simp add: execute_eq)
next
  assume "approved rd \<and> signal sg \<noteq> ''BUY'' \<and> signal sg \<noteq> ''SELL''"
  then show "execute ar br sg rd lp = Inr (declined (''Unsupported signal '' @ signal sg))"
    by (simp add: execute_eq)
next
  assume "approved rd \<and> (signal sg = ''BUY'' \<or> signal sg = ''SELL'') \<and> fle lp (Fin 0)"
  then show "execute ar br sg rd lp = Inr (declined ''Invalid market price'')"
    by (auto simp: execute_eq)
next
  assume "approved rd \<and> (signal sg = ''BUY'' \<or> signal sg = ''SELL'') \<and> \<not> fle lp (Fin 0) \<and>
    fle (order_qty ar rd lp) (Fin 0)"
  then show "execute ar br sg rd lp = Inr (declined ''Calculated quantity is zero'')"
    by (auto simp: execute_eq)
next
  assume "approved rd \<and> (signal sg = ''BUY'' \<or> signal sg = ''SELL'') \<and> \<not> fle lp (Fin 0) \<and>
    \<not> fle (order_qty ar rd lp) (Fin 0)"
  then have e: "execute ar br sg rd lp =
     Inr (case br (symbol sg) (order_qty ar rd lp) (signal sg) of
            Inr order \<Rightarrow>
              (\<lparr>executed = True, reason = ''Order submitted'', qty = order_qty ar rd lp,
                order_id = Some (str_id order)\<rparr>,
               [SubmitOrder (symbol sg) (order_qty ar rd lp) (signal sg)])
          | Inl msg \<Rightarrow>
              (\<lparr>executed = False, reason = msg, qty = order_qty ar rd lp, order_id = None\<rparr>,
               [SubmitOrder (symbol sg) (order_qty ar rd lp) (signal sg)]))"
    by (intro execute_submits) simp_all
  show "\<exists>r. execute ar br sg rd lp =
             Inr (r, [SubmitOrder (symbol sg) (order_qty ar rd lp) (signal sg)]) \<and>
           qty r = order_qty ar rd lp \<and>
           (\<forall>order. br (symbol sg) (order_qty ar rd lp) (signal sg) = Inr order \<longrightarrow>
              r = \<lparr>executed = True, reason = ''Order submitted'', qty = order_qty ar rd lp,
                    order_id = Some (str_id order)\<rparr>)"
  proof (cases "br (symbol sg) (order_qty ar rd lp) (signal sg)")
    case (Inl msg)
    show ?thesis unfolding e Inl by simp
  next
    case (Inr order)
    show ?thesis unfolding e Inr by simp
  qed
next
  assume "exact_when_representable ar \<and> max_position_value rd = Fin 5000 \<and> lp = Fin 100"
  then show "order_qty ar rd lp = Fin 50"
    using order_qty_5000_100 by blast
qed

theorem execute_checks_in_order_witness:
  "execute exact_arith accepting_broker buy_signal hold_rejection (Fin 100) =
     Inr (declined ''Signal is HOLD'') \<and>
   execute exact_arith accepting_broker hold_signal (approved_for (Fin 5000)) (Fin 100) =
     Inr (declined ''Unsupported signal HOLD'') \<and>
   execute exact_arith accepting_broker buy_signal (approved_for (Fin 5000)) (Fin 0) =
     Inr (declined ''Invalid market price'') \<and>
   execute exact_arith accepting_broker buy_signal (approved_for (Fin (1 / 2 ^ 20))) (Fin 1) =
     Inr (declined ''Calculated quantity is zero'') \<and>
   exact_when_representable exact_arith \<and>
   execute exact_arith accepting_broker buy_signal (approved_for (Fin 5000)) (Fin 100) =
     Inr (\<lparr>executed = True, reason = ''Order submitted'', qty = Fin 50,
           order_id = Some ''order-1''\<rparr>, [SubmitOrder ''SPY'' (Fin 50) ''BUY''])"
proof -
  note defs = approved_for_def hold_rejection_def hold_signal_def buy_signal_def
    accepting_broker_def order_qty_def round_half_even_def str_id_def declined_def
    exact_arith_def
  have "execute exact_arith accepting_broker buy_signal hold_rejection (Fin 100) =
          Inr (declined ''Signal is HOLD'')"
    using execute_checks_in_order [where rd = hold_rejection and br = accepting_broker
        and sg = buy_signal and lp = "Fin 100" and ar = exact_arith]
    by (simp add: defs)
  moreover
  have "execute exact_arith accepting_broker hold_signal (approved_for (Fin 5000)) (Fin 100) =
          Inr (declined ''Unsupported signal HOLD'')"
    using execute_checks_in_order [where rd = "approved_for (Fin 5000)"
        and br = accepting_broker and sg = hold_signal and lp = "Fin 100" and ar = exact_arith]
    by (simp add: defs)
  moreover
  have "execute exact_arith accepting_broker buy_signal (approved_for (Fin 5000)) (Fin 0) =
          Inr (declined ''Invalid market price'')"
    using execute_checks_in_order [where rd = "approved_for (Fin 5000)"
        and br = accepting_broker and sg = buy_signal and lp = "Fin 0" and ar = exact_arith]
    by (simp add: defs)
  moreover
  have "execute exact_arith accepting_broker buy_signal (approved_for (Fin (1 / 2 ^ 20)))
          (Fin 1) = Inr (declined ''Calculated quantity is zero'')"
    using execute_checks_in_order [where rd = "approved_for (Fin (1 / 2 ^ 20))"
        and br = accepting_broker and sg = buy_signal and lp = "Fin 1" and ar = exact_arith]
    by (simp add: defs)
  moreover
  have "execute exact_arith accepting_broker buy_signal (approved_for (Fin 5000)) (Fin 100) =
          Inr (\<lparr>executed = True, reason = ''Order submitted'', qty = Fin 50,
                order_id = Some ''order-1''\<rparr>, [SubmitOrder ''SPY'' (Fin 50) ''BUY''])"
    using execute_checks_in_order [where rd = "approved_for (Fin 5000)"
        and br = accepting_broker and sg = buy_signal and lp = "Fin 100" and ar = exact_arith]
      exact_arith_exact
    by (auto simp: approved_for_def buy_signal_def accepting_broker_def str_id_def)
  ultimately show ?thesis using exact_arith_exact by simp
qed

text \<open>
  C4.  \<open>execute\<close> returns a result for every input: the division cannot raise, since a
  zero price is declined before it.  When the broker's \<open>submit_order\<close> raises, the
  result has \<open>executed = False\<close>, the exception's message as reason, the attempted
  quantity \<open>round(max_position_value / last_price, 4)\<close> as the platform computes it, and
  no order identifier.
\<close>

theorem execute_never_raises:
  "(\<exists>r calls. execute ar br sg rd lp = Inr (r, calls)) \<and>
   (approved rd \<and> (signal sg = ''BUY'' \<or> signal sg = ''SELL'') \<and> \<not> fle lp (Fin 0) \<and>
    \<not> fle (order_qty ar rd lp) (Fin 0) \<and>
    br (symbol sg) (order_qty ar rd lp) (signal sg) = Inl msg \<longrightarrow>
      execute ar br sg rd lp =
        Inr (\<lparr>executed = False, reason = msg, qty = order_qty ar rd lp, order_id = None\<rparr>,
             [SubmitOrder (symbol sg) (order_qty ar rd lp) (signal sg)]))"
proof (intro conjI impI)
  obtain p where "execute ar br sg rd lp = Inr p"
    using execute_eq by blast
  moreover obtain r calls where "p = (r, calls)" by (cases p)
  ultimately show "\<exists>r calls. execute ar br sg rd lp = Inr (r, calls)" by blast
next
  assume a: "approved rd \<and> (signal sg = ''BUY'' \<or> signal sg = ''SELL'') \<and> \<not> fle lp (Fin 0) \<and>
    \<not> fle (order_qty ar rd lp) (Fin 0) \<and>
    br (symbol sg) (order_qty ar rd lp) (signal sg) = Inl msg"
  then have "br (symbol sg) (order_qty ar rd lp) (signal sg) = Inl msg" by simp
  moreover from a have "execute ar br sg rd lp =
     Inr (case br (symbol sg) (order_qty ar rd lp) (signal sg) of
            Inr order \<Rightarrow>
              (\<lparr>executed = True, reason = ''Order submitted'', qty = order_qty ar rd lp,
                order_id = Some (str_id order)\<rparr>,
               [SubmitOrder (symbol sg) (order_qty ar rd lp) (signal sg)])
          | Inl msg \<Rightarrow>
              (\<lparr>executed = False, reason = msg, qty = order_qty ar rd lp, order_id = None\<rparr>,
               [SubmitOrder (symbol sg) (order_qty ar rd lp) (signal sg)]))"
    by (intro execute_submits) simp_all
  ultimately show "execute ar br sg rd lp =
        Inr (\<lparr>executed = False, reason = msg, qty = order_qty ar rd lp, order_id = None\<rparr>,
             [SubmitOrder (symbol sg) (order_qty ar rd lp) (signal sg)])"
    by simp
qed

theorem execute_never_raises_witness:
  "execute exact_arith failing_broker buy_signal (approved_for (Fin 5000)) (Fin 100) =
     Inr (\<lparr>executed = False, reason = ''insufficient buying power'', qty = Fin 50,
           order_id = None\<rparr>, [SubmitOrder ''SPY'' (Fin 50) ''BUY''])"
  using execute_never_raises [where br = failing_broker and sg = buy_signal
      and rd = "approved_for (Fin 5000)" and lp = "Fin 100" and ar = exact_arith
      and msg = "''insufficient buying power''"]
  by (simp add: approved_for_def buy_signal_def failing_broker_def order_qty_def
      round_half_even_def exact_arith_def)

end
